theory Spec2Isabelle
  imports Main "HOL-Library.AList"
begin

section \<open>Content items and calendar events\<close>

text \<open>
  The content item of \<^verbatim>\<open>@shared/schema\<close> as the dashboard component reads it. At run time
  the platform and the status are plain strings (the component casts them to the key
  type of the filter objects before the lookup), so they are strings here. The type
  parameter \<open>'d\<close> is the representation of a date as the data API delivers it.
  The field \<open>id\<close> of the source is \<open>item_id\<close> here.
\<close>

record 'd ContentItem =
  item_id :: string
  title :: string
  description :: "string option"
  platform :: string
  scheduledDate :: 'd
  status :: string
  createdAt :: 'd
  updatedAt :: 'd

text \<open>
  The interface \<^verbatim>\<open>CalendarEvent\<close>: \<open>id\<close>, \<open>title\<close>, \<open>start\<close>, \<open>end\<close> and \<open>resource\<close>.
  The type parameter \<open>'t\<close> is the Date object built by \<^verbatim>\<open>new Date(...)\<close>.
\<close>

record ('d, 't) CalendarEvent =
  event_id :: string
  event_title :: string
  event_start :: 't
  event_end :: 't
  resource :: "'d ContentItem"

section \<open>Filter objects and property lookup\<close>

text \<open>
  The two filter objects are plain JavaScript objects with boolean own properties,
  written as object literals and rebuilt by spreading. An association list holds the own
  properties in insertion order.
\<close>

type_synonym flag_object = "(string \<times> bool) list"

record filter_state =
  platforms :: flag_object
  statuses :: flag_object

definition platform_keys :: "string list" where
  "platform_keys = [''social'', ''email'', ''blog'']"

definition status_keys :: "string list" where
  "status_keys = [''draft'', ''scheduled'', ''posted'']"

text \<open>The initial value handed to \<^verbatim>\<open>useState\<close> for the filters.\<close>

definition initial_filters :: filter_state where
  "initial_filters =
     \<lparr> platforms = [(''social'', True), (''email'', True), (''blog'', True)],
       statuses = [(''draft'', True), (''scheduled'', True), (''posted'', True)] \<rparr>"

text \<open>
  What a property read \<^verbatim>\<open>obj[key]\<close> can yield on such an object: a boolean own property,
  a member inherited from \<^verbatim>\<open>Object.prototype\<close> (a function, or the prototype object itself
  for \<^verbatim>\<open>__proto__\<close>), or \<^verbatim>\<open>undefined\<close>.
\<close>

datatype js_value = Undefined | Boolean bool | Inherited

text \<open>The property names every object literal inherits from \<^verbatim>\<open>Object.prototype\<close>.\<close>

definition object_prototype_keys :: "string list" where
  "object_prototype_keys =
     [''constructor'', ''hasOwnProperty'', ''isPrototypeOf'', ''propertyIsEnumerable'',
      ''toLocaleString'', ''toString'', ''valueOf'', ''__proto__'',
      ''__defineGetter__'', ''__defineSetter__'', ''__lookupGetter__'', ''__lookupSetter__'']"

text \<open>
  \<^verbatim>\<open>obj[key]\<close>: an own property wins, then the prototype chain is searched, and a name
  found nowhere reads as \<^verbatim>\<open>undefined\<close>.
\<close>

definition get_property :: "flag_object \<Rightarrow> string \<Rightarrow> js_value" where
  "get_property obj k =
     (case map_of obj k of
        Some b \<Rightarrow> Boolean b
      | None \<Rightarrow> if k \<in> set object_prototype_keys then Inherited else Undefined)"

text \<open>JavaScript's \<^verbatim>\<open>ToBoolean\<close> on these values, and the operator \<^verbatim>\<open>a && b\<close>.\<close>

fun truthy :: "js_value \<Rightarrow> bool" where
  "truthy Undefined = False"
| "truthy (Boolean b) = b"
| "truthy Inherited = True"

definition js_and :: "js_value \<Rightarrow> js_value \<Rightarrow> js_value" where
  "js_and a b = (if truthy a then b else a)"

section \<open>The derived lists of the dashboard\<close>

text \<open>
  \<^verbatim>\<open>const { data: contentItems = [] } = useQuery(...)\<close>: the fetched list, or the empty
  list while there is no data.
\<close>

definition contentItems :: "'d ContentItem list option \<Rightarrow> 'd ContentItem list" where
  "contentItems data = (case data of None \<Rightarrow> [] | Some xs \<Rightarrow> xs)"

text \<open>
  \<^verbatim>\<open>contentItems.filter(item => filters.platforms[item.platform] && filters.statuses[item.status])\<close>
\<close>

definition keeps :: "filter_state \<Rightarrow> 'd ContentItem \<Rightarrow> bool" where
  "keeps fs item =
     truthy (js_and (get_property (platforms fs) (platform item))
                    (get_property (statuses fs) (status item)))"

definition filteredItems :: "filter_state \<Rightarrow> 'd ContentItem list \<Rightarrow> 'd ContentItem list" where
  "filteredItems fs items = filter (keeps fs) items"

text \<open>
  \<^verbatim>\<open>filteredItems.map(item => ({ id: item.id, title: item.title,
     start: new Date(item.scheduledDate), end: new Date(item.scheduledDate), resource: item }))\<close>.
  The Date constructor is the parameter \<open>new_Date\<close>: the same function is applied to the
  same argument for both fields.
\<close>

definition to_event :: "('d \<Rightarrow> 't) \<Rightarrow> 'd ContentItem \<Rightarrow> ('d, 't) CalendarEvent" where
  "to_event new_Date item =
     \<lparr> event_id = item_id item,
       event_title = title item,
       event_start = new_Date (scheduledDate item),
       event_end = new_Date (scheduledDate item),
       resource = item \<rparr>"

definition events :: "('d \<Rightarrow> 't) \<Rightarrow> 'd ContentItem list \<Rightarrow> ('d, 't) CalendarEvent list" where
  "events new_Date items = map (to_event new_Date) items"

text \<open>
  The badges of the platform checkboxes:
  \<^verbatim>\<open>{ social: contentItems.filter(item => item.platform === 'social').length, ... }\<close>.
\<close>

record platform_counts =
  social :: nat
  email :: nat
  blog :: nat

definition platformCounts :: "'d ContentItem list \<Rightarrow> platform_counts" where
  "platformCounts items =
     \<lparr> social = length (filter (\<lambda>item. platform item = ''social'') items),
       email = length (filter (\<lambda>item. platform item = ''email'') items),
       blog = length (filter (\<lambda>item. platform item = ''blog'') items) \<rparr>"

text \<open>
  The checkbox handlers:
  \<^verbatim>\<open>setFilters(prev => ({ ...prev, platforms: { ...prev.platforms, [key]: checked } }))\<close>
  and the same for the statuses. Spreading and then writing the computed key overwrites
  the property in place, or appends it when it is new.
\<close>

definition setPlatformFilter :: "string \<Rightarrow> bool \<Rightarrow> filter_state \<Rightarrow> filter_state" where
  "setPlatformFilter k checked prev =
     prev\<lparr> platforms := AList.update k checked (platforms prev) \<rparr>"

definition setStatusFilter :: "string \<Rightarrow> bool \<Rightarrow> filter_state \<Rightarrow> filter_state" where
  "setStatusFilter k checked prev =
     prev\<lparr> statuses := AList.update k checked (statuses prev) \<rparr>"

section \<open>Spec-side predicates on filter states\<close>

text \<open>
  A filter state as the claims describe it: one boolean flag per platform in
  \<open>{social, email, blog}\<close> and per status in \<open>{draft, scheduled, posted}\<close>, and no other
  own property.
\<close>

definition flag_per_key :: "filter_state \<Rightarrow> bool" where
  "flag_per_key fs \<longleftrightarrow>
     set (map fst (platforms fs)) = set platform_keys \<and>
     set (map fst (statuses fs)) = set status_keys"

text \<open>
  ``Both the flag of the item's platform and the flag of the item's status are true'':
  the flag of a name is the boolean own property stored under it.
\<close>

definition flags_true :: "filter_state \<Rightarrow> 'd ContentItem \<Rightarrow> bool" where
  "flags_true fs item \<longleftrightarrow>
     map_of (platforms fs) (platform item) = Some True \<and>
     map_of (statuses fs) (status item) = Some True"

text \<open>``Every filter flag is true.''\<close>

definition all_flags_true :: "filter_state \<Rightarrow> bool" where
  "all_flags_true fs \<longleftrightarrow>
     list_all (\<lambda>k. map_of (platforms fs) k = Some True) platform_keys \<and>
     list_all (\<lambda>k. map_of (statuses fs) k = Some True) status_keys"

section \<open>Authentication gate of the component\<close>

text \<open>
  What \<^verbatim>\<open>ContentPlannerApp\<close> returns: the sign-in prompt, the loading spinner, or
  the dashboard (sidebar, filters, calendar). \<^verbatim>\<open>useAuth\<close> supplies \<open>user\<close> (null when
  nobody is signed in) and \<open>loading\<close>.
\<close>

datatype rendered = SignInPrompt | LoadingSpinner | Dashboard

record 'u auth =
  user :: "'u option"
  loading :: bool

text \<open>
  \<^verbatim>\<open>if (!loading && !user) return <sign-in prompt>; if (loading) return <spinner>;
     ... return <dashboard>\<close>
\<close>

definition ContentPlannerApp :: "'u auth \<Rightarrow> rendered" where
  "ContentPlannerApp a =
     (if \<not> loading a \<and> user a = None then SignInPrompt
      else if loading a then LoadingSpinner
      else Dashboard)"

section \<open>Effects: sign-out and the delete mutation\<close>

text \<open>
  The calls the component makes on its collaborators, in the order it makes them: the
  auth provider's \<^verbatim>\<open>signOut\<close>, \<^verbatim>\<open>apiRequest(method, url)\<close>,
  \<^verbatim>\<open>queryClient.invalidateQueries({ queryKey })\<close>, and the two toast calls.
\<close>

datatype effect =
    SignOut
  | ApiRequest string string
  | InvalidateQueries "string list"
  | ToastSuccess string
  | ToastError string

text \<open>
  \<^verbatim>\<open>try { await signOut(); toast.success(...) } catch (error) { toast.error(...) }\<close>.
  The argument is the outcome of the awaited call (\<open>Inl\<close> a rejection); the result is the
  calls made and how the handler itself completes (\<open>Inl\<close> would be an error that escapes).
\<close>

definition handleSignOut :: "'e + unit \<Rightarrow> effect list \<times> ('e + unit)" where
  "handleSignOut outcome =
     (case outcome of
        Inr _ \<Rightarrow> ([SignOut, ToastSuccess ''Signed out successfully''], Inr ())
      | Inl _ \<Rightarrow> ([SignOut, ToastError ''Failed to sign out''], Inr ()))"

text \<open>The options object handed to \<^verbatim>\<open>useMutation\<close>.\<close>

record mutation_options =
  mutationFn :: "string \<Rightarrow> effect"
  onSuccess :: "effect list"
  onError :: "effect list"

definition deleteMutation :: mutation_options where
  "deleteMutation =
     \<lparr> mutationFn = (\<lambda>item. ApiRequest ''DELETE'' (''/api/content/'' @ item)),
       onSuccess = [InvalidateQueries [''/api/content''],
                    ToastSuccess ''Content item deleted successfully''],
       onError = [ToastError ''Failed to delete content item''] \<rparr>"

text \<open>
  Running a mutation in the query client: the mutation function is called, called again
  after a failure while retries remain, and then exactly one of the two callbacks runs.
  \<open>respond k\<close> tells whether the call number \<open>k\<close> succeeds.
\<close>

fun attempts :: "nat \<Rightarrow> nat \<Rightarrow> (nat \<Rightarrow> bool) \<Rightarrow> effect \<Rightarrow> effect list \<times> bool" where
  "attempts 0 k respond request = ([request], respond k)"
| "attempts (Suc n) k respond request =
     (if respond k then ([request], True)
      else (case attempts n (Suc k) respond request of
              (es, ok) \<Rightarrow> (request # es, ok)))"

definition mutate :: "nat \<Rightarrow> mutation_options \<Rightarrow> (nat \<Rightarrow> bool) \<Rightarrow> string \<Rightarrow> effect list" where
  "mutate retries opts respond x =
     (case attempts retries 0 respond (mutationFn opts x) of
        (es, ok) \<Rightarrow> es @ (if ok then onSuccess opts else onError opts))"

text \<open>
  Modelled from the spec: the retry setting of the shared query client
  (\<^verbatim>\<open>lib/queryClient\<close>, not among the sources; the options object above sets none).
  The spec: ``no retry, recovery, or partial-failure semantics exist''.
\<close>

definition mutation_retries :: nat where
  "mutation_retries = 0"

text \<open>
  \<^verbatim>\<open>deleteMutation.mutate(id)\<close>: the delete mutation run in that client.
\<close>

definition runDelete :: "(nat \<Rightarrow> bool) \<Rightarrow> string \<Rightarrow> effect list" where
  "runDelete respond item = mutate mutation_retries deleteMutation respond item"

text \<open>Projections of a run: the requests sent, the toasts shown, the keys invalidated.\<close>

fun requests :: "effect list \<Rightarrow> (string \<times> string) list" where
  "requests [] = []"
| "requests (ApiRequest m u # es) = (m, u) # requests es"
| "requests (e # es) = requests es"

fun toasts :: "effect list \<Rightarrow> effect list" where
  "toasts [] = []"
| "toasts (ToastSuccess t # es) = ToastSuccess t # toasts es"
| "toasts (ToastError t # es) = ToastError t # toasts es"
| "toasts (e # es) = toasts es"

fun invalidated :: "effect list \<Rightarrow> string list list" where
  "invalidated [] = []"
| "invalidated (InvalidateQueries k # es) = k # invalidated es"
| "invalidated (e # es) = invalidated es"

fun sign_outs :: "effect list \<Rightarrow> nat" where
  "sign_outs [] = 0"
| "sign_outs (SignOut # es) = Suc (sign_outs es)"
| "sign_outs (e # es) = sign_outs es"

section \<open>The list query\<close>

text \<open>
  The result object of \<^verbatim>\<open>useQuery({ queryKey: ['/api/content'] })\<close>. The component
  destructures \<open>data\<close> and \<open>isLoading\<close>; the object also carries the error of a failed
  fetch, which the component does not read.
\<close>

record 'd query_result =
  query_data :: "'d ContentItem list option"
  query_isLoading :: bool
  query_error :: "string option"

text \<open>The result object once the fetch has failed: no data, not loading, the error set.\<close>

definition failed_query :: "string \<Rightarrow> 'd query_result" where
  "failed_query e = \<lparr> query_data = None, query_isLoading = False, query_error = Some e \<rparr>"

text \<open>
  The calendar area of the dashboard:
  \<^verbatim>\<open>{isLoading ? <spinner> : <Calendar events={events} ... />}\<close>, together with the
  calls the component makes on its collaborators between the query and the returned
  markup. It makes none: no toast function is called there and no callback of the query
  is registered.
\<close>

datatype ('d, 't) calendar_area = CalendarSpinner | CalendarOf "('d, 't) CalendarEvent list"

definition calendarArea ::
  "('d \<Rightarrow> 't) \<Rightarrow> filter_state \<Rightarrow> 'd query_result \<Rightarrow> effect list \<times> ('d, 't) calendar_area" where
  "calendarArea new_Date fs q =
     ([], if query_isLoading q then CalendarSpinner
          else CalendarOf (events new_Date (filteredItems fs (contentItems (query_data q)))))"

section \<open>The route table\<close>

datatype page =
  Landing | ContentPlanner | Analytics | BulkScheduling | Subscription | Settings | NotFound

text \<open>
  The children of \<^verbatim>\<open><Switch>\<close> in \<^verbatim>\<open>Router\<close>, in order; the last route has no path.
\<close>

definition routes :: "(string option \<times> page) list" where
  "routes =
     [(Some ''/'', Landing),
      (Some ''/app'', ContentPlanner),
      (Some ''/analytics'', Analytics),
      (Some ''/bulk-scheduling'', BulkScheduling),
      (Some ''/subscription'', Subscription),
      (Some ''/settings'', Settings),
      (None, NotFound)]"

text \<open>The paths the table names, in order.\<close>

definition route_paths :: "string list" where
  "route_paths = List.map_filter fst routes"

text \<open>
  \<^verbatim>\<open><Switch>\<close> renders the first child whose path matches the location; a route
  without a path matches every location. \<open>matches pattern location\<close> is the routing
  library's matcher.
\<close>

fun Switch :: "(string \<Rightarrow> string \<Rightarrow> bool) \<Rightarrow> (string option \<times> page) list \<Rightarrow> string \<Rightarrow> page option" where
  "Switch matches [] location = None"
| "Switch matches ((None, component) # rs) location = Some component"
| "Switch matches ((Some pattern, component) # rs) location =
     (if matches pattern location then Some component else Switch matches rs location)"

text \<open>
  \<^verbatim>\<open>Router\<close>: the switch over the table. The matcher is the one of the router in use,
  so it is an argument.
\<close>

definition Router :: "(string \<Rightarrow> string \<Rightarrow> bool) \<Rightarrow> string \<Rightarrow> page option" where
  "Router matches location = Switch matches routes location"

text \<open>
  The matcher of wouter, the library \<^verbatim>\<open>Switch\<close> and \<^verbatim>\<open>Route\<close> are imported from, on a
  pattern without parameters: the pattern becomes a regular expression that ignores
  letter case and allows one trailing slash.
\<close>

definition lower_char :: "char \<Rightarrow> char" where
  "lower_char c =
     (case map_of (zip ''ABCDEFGHIJKLMNOPQRSTUVWXYZ'' ''abcdefghijklmnopqrstuvwxyz'') c of
        Some l \<Rightarrow> l
      | None \<Rightarrow> c)"

definition to_lower :: "string \<Rightarrow> string" where
  "to_lower s = map lower_char s"

definition path_matches :: "string \<Rightarrow> string \<Rightarrow> bool" where
  "path_matches pattern location \<longleftrightarrow>
     to_lower location = to_lower pattern \<or>
     to_lower location = to_lower pattern @ ''/''"

text \<open>A route pattern takes a parameter when it has a \<open>:name\<close> segment or a wildcard.\<close>

definition takes_parameter :: "string option \<Rightarrow> bool" where
  "takes_parameter p =
     (case p of None \<Rightarrow> False | Some s \<Rightarrow> CHR '':'' \<in> set s \<or> CHR ''*'' \<in> set s)"

section \<open>The state of the dashboard and its handlers\<close>

text \<open>The \<^verbatim>\<open>useState\<close> cells of the component.\<close>

record 'd ui_state =
  isModalOpen :: bool
  isAuthModalOpen :: bool
  editingItem :: "'d ContentItem option"
  currentDate :: 'd
  view :: string
  filters :: filter_state

text \<open>The initial values; \<open>now\<close> is the \<^verbatim>\<open>new Date()\<close> of the first render.\<close>

definition initial_state :: "'d \<Rightarrow> 'd ui_state" where
  "initial_state now =
     \<lparr> isModalOpen = False, isAuthModalOpen = False, editingItem = None,
       currentDate = now, view = ''month'', filters = initial_filters \<rparr>"

text \<open>
  The argument of \<^verbatim>\<open>handleSuggestionUse\<close> is typed \<^verbatim>\<open>any\<close>; the handler reads its
  \<open>title\<close> and \<open>platform\<close>.
\<close>

record suggestion =
  suggestion_title :: string
  suggestion_platform :: string

text \<open>
  \<^verbatim>\<open>setEditingItem({ id: '', title: suggestion.title, description: null,
     platform: suggestion.platform, scheduledDate: new Date(), status: 'draft',
     createdAt: new Date(), updatedAt: new Date() } as ContentItem); setIsModalOpen(true)\<close>.
  The three clock readings are the arguments \<open>t1\<close>, \<open>t2\<close>, \<open>t3\<close>.
\<close>

definition handleSuggestionUse ::
  "'d \<Rightarrow> 'd \<Rightarrow> 'd \<Rightarrow> suggestion \<Rightarrow> 'd ui_state \<Rightarrow> 'd ui_state" where
  "handleSuggestionUse t1 t2 t3 sg s =
     s\<lparr> editingItem :=
          Some \<lparr> item_id = [], title = suggestion_title sg, description = None,
                 platform = suggestion_platform sg, scheduledDate = t1,
                 status = ''draft'', createdAt = t2, updatedAt = t3 \<rparr>,
        isModalOpen := True \<rparr>"

definition handleSelectEvent :: "('d, 't) CalendarEvent \<Rightarrow> 'd ui_state \<Rightarrow> 'd ui_state" where
  "handleSelectEvent event s = s\<lparr> editingItem := Some (resource event), isModalOpen := True \<rparr>"

text \<open>Also the body of the ``Add New Content'' button, which shows a toast besides.\<close>

definition handleSelectSlot :: "'d ui_state \<Rightarrow> 'd ui_state" where
  "handleSelectSlot s = s\<lparr> editingItem := None, isModalOpen := True \<rparr>"

definition onClose :: "'d ui_state \<Rightarrow> 'd ui_state" where
  "onClose s = s\<lparr> isModalOpen := False, editingItem := None \<rparr>"

text \<open>The list the view buttons are mapped from.\<close>

definition view_options :: "string list" where
  "view_options = [''month'', ''week'', ''day'']"

text \<open>
  \<^verbatim>\<open>onView={(view) => { if (view === 'month' || view === 'week' || view === 'day')
     { setView(view); } }}\<close>
\<close>

definition onView :: "string \<Rightarrow> 'd ui_state \<Rightarrow> 'd ui_state" where
  "onView v s =
     (if v = ''month'' \<or> v = ''week'' \<or> v = ''day'' then s\<lparr> view := v \<rparr> else s)"

text \<open>
  One user or calendar event: every handler of the component that writes a state cell.
  A view button exists for each member of \<open>view_options\<close>, a checkbox for each key of
  the two literals the filter sections are mapped from; the calendar may hand any view
  name to \<open>onView\<close> and any date to \<open>onNavigate\<close>.
\<close>

inductive step :: "'d ui_state \<Rightarrow> 'd ui_state \<Rightarrow> bool" where
  view_button: "viewOption \<in> set view_options \<Longrightarrow> step s (s\<lparr> view := viewOption \<rparr>)"
| calendar_view: "step s (onView v s)"
| set_date: "step s (s\<lparr> currentDate := d \<rparr>)"
| platform_checkbox:
    "k \<in> set platform_keys \<Longrightarrow> step s (s\<lparr> filters := setPlatformFilter k checked (filters s) \<rparr>)"
| status_checkbox:
    "k \<in> set status_keys \<Longrightarrow> step s (s\<lparr> filters := setStatusFilter k checked (filters s) \<rparr>)"
| suggestion_use: "step s (handleSuggestionUse t1 t2 t3 sg s)"
| select_event: "step s (handleSelectEvent (event :: ('d, 'd) CalendarEvent) s)"
| select_slot: "step s (handleSelectSlot s)"
| close_modal: "step s (onClose s)"
| auth_modal: "step s (s\<lparr> isAuthModalOpen := b \<rparr>)"

inductive reachable :: "'d ui_state \<Rightarrow> bool" where
  start: "reachable (initial_state now)"
| next_state: "reachable s \<Longrightarrow> step s s' \<Longrightarrow> reachable s'"

section \<open>Example data\<close>

text \<open>
  Items as the data API delivers them, with dates as ISO strings. Two carry platform names
  that are no platform of the planner but are property names of every object literal; one
  carries a platform the planner does not know at all.
\<close>

definition social_draft_item :: "string ContentItem" where
  "social_draft_item =
     \<lparr> item_id = ''1'', title = ''Spring sale post'', description = None,
       platform = ''social'', scheduledDate = ''2025-03-03T09:00:00.000Z'',
       status = ''draft'', createdAt = ''2025-02-01T09:00:00.000Z'',
       updatedAt = ''2025-02-02T09:00:00.000Z'' \<rparr>"

definition email_scheduled_item :: "string ContentItem" where
  "email_scheduled_item =
     \<lparr> item_id = ''2'', title = ''Newsletter'', description = Some ''March issue'',
       platform = ''email'', scheduledDate = ''2025-03-04T09:00:00.000Z'',
       status = ''scheduled'', createdAt = ''2025-02-01T09:00:00.000Z'',
       updatedAt = ''2025-02-02T09:00:00.000Z'' \<rparr>"

definition podcast_item :: "string ContentItem" where
  "podcast_item =
     \<lparr> item_id = ''3'', title = ''Episode 12'', description = None,
       platform = ''podcast'', scheduledDate = ''2025-03-05T09:00:00.000Z'',
       status = ''posted'', createdAt = ''2025-02-01T09:00:00.000Z'',
       updatedAt = ''2025-02-02T09:00:00.000Z'' \<rparr>"

definition inherited_name_item :: "string ContentItem" where
  "inherited_name_item =
     \<lparr> item_id = ''7'', title = ''Launch teaser'', description = None,
       platform = ''toString'', scheduledDate = ''2025-03-01T09:00:00.000Z'',
       status = ''draft'', createdAt = ''2025-02-01T09:00:00.000Z'',
       updatedAt = ''2025-02-01T09:00:00.000Z'' \<rparr>"

definition constructor_item :: "string ContentItem" where
  "constructor_item =
     \<lparr> item_id = ''8'', title = ''Imported row'', description = Some ''from a CSV'',
       platform = ''constructor'', scheduledDate = ''2025-03-02T09:00:00.000Z'',
       status = ''scheduled'', createdAt = ''2025-02-01T09:00:00.000Z'',
       updatedAt = ''2025-02-01T09:00:00.000Z'' \<rparr>"

definition tiktok_suggestion :: suggestion where
  "tiktok_suggestion =
     \<lparr> suggestion_title = ''Behind the scenes'', suggestion_platform = ''tiktok'' \<rparr>"

section \<open>Auxiliary facts\<close>

lemma keeps_iff:
  "keeps fs item \<longleftrightarrow>
     truthy (get_property (platforms fs) (platform item)) \<and>
     truthy (get_property (statuses fs) (status item))"
  by (simp add: keeps_def js_and_def)

lemma truthy_get_property:
  "truthy (get_property obj k) \<longleftrightarrow>
     map_of obj k = Some True \<or> (map_of obj k = None \<and> k \<in> set object_prototype_keys)"
  by (auto simp: get_property_def split: option.splits)

lemma truthy_get_property_own:
  "k \<notin> set object_prototype_keys \<Longrightarrow>
     truthy (get_property obj k) \<longleftrightarrow> map_of obj k = Some True"
  by (auto simp: truthy_get_property)

lemma map_of_update_same: "map_of (AList.update k v obj) k = Some v"
  by (simp add: update_conv')

lemma map_of_no_key: "k \<notin> set (map fst obj) \<Longrightarrow> map_of obj k = None"
  by (simp add: map_of_eq_None_iff)

lemma keys_update:
  "k \<in> set (map fst obj) \<Longrightarrow> set (map fst (AList.update k v obj)) = set (map fst obj)"
  by (simp add: update_keys)

lemma invalidated_append: "invalidated (xs @ ys) = invalidated xs @ invalidated ys"
  by (induction xs rule: invalidated.induct) simp_all

text \<open>The calls of the mutation function alone show no toast and invalidate nothing.\<close>

lemma attempts_effects:
  "requests (fst (attempts n k respond (ApiRequest m u))) \<noteq> [] \<and>
   toasts (fst (attempts n k respond (ApiRequest m u))) = [] \<and>
   invalidated (fst (attempts n k respond (ApiRequest m u))) = []"
proof (induction n arbitrary: k)
  case 0
  show ?case by simp
next
  case (Suc n)
  obtain es ok where run: "attempts n (Suc k) respond (ApiRequest m u) = (es, ok)"
    by (cases "attempts n (Suc k) respond (ApiRequest m u)")
  from Suc [of "Suc k"] run show ?case by simp
qed

text \<open>No handler leaves the three view names.\<close>

lemma step_view:
  assumes "step s s'" and "view s \<in> set view_options"
  shows "view s' \<in> set view_options"
  using assms
  by (cases rule: step.cases)
     (auto simp: onView_def view_options_def handleSuggestionUse_def handleSelectEvent_def
        handleSelectSlot_def onClose_def)

text \<open>
  Every state the handlers can reach holds a filter state with exactly one flag per
  platform and per status: the checkboxes only overwrite flags that exist.
\<close>

lemma reachable_flag_per_key: "reachable s \<Longrightarrow> flag_per_key (filters s)"
proof (induction rule: reachable.induct)
  case (start now)
  show ?case
    by (simp add: initial_state_def initial_filters_def flag_per_key_def platform_keys_def
        status_keys_def)
next
  case (next_state s s')
  from next_state.hyps(2) next_state.IH show ?case
    by (cases rule: step.cases)
       (auto simp: onView_def handleSuggestionUse_def handleSelectEvent_def
          handleSelectSlot_def onClose_def flag_per_key_def setPlatformFilter_def
          setStatusFilter_def keys_update simp del: set_map)
qed

text \<open>
  Away from the names inherited from \<^verbatim>\<open>Object.prototype\<close> the filter is the flag test.
\<close>

lemma keeps_flags_true:
  "platform item \<notin> set object_prototype_keys \<Longrightarrow>
   status item \<notin> set object_prototype_keys \<Longrightarrow>
   keeps fs item \<longleftrightarrow> flags_true fs item"
  by (simp add: keeps_iff truthy_get_property_own flags_true_def)

lemma unknown_key_excluded:
  assumes "flag_per_key fs"
    and "platform item \<notin> set platform_keys \<union> set object_prototype_keys \<or>
         status item \<notin> set status_keys \<union> set object_prototype_keys"
  shows "\<not> keeps fs item"
  using assms(2)
proof
  assume "platform item \<notin> set platform_keys \<union> set object_prototype_keys"
  with assms(1) have "map_of (platforms fs) (platform item) = None"
    and "platform item \<notin> set object_prototype_keys"
    by (simp_all add: flag_per_key_def map_of_no_key)
  then show ?thesis by (simp add: keeps_iff truthy_get_property)
next
  assume "status item \<notin> set status_keys \<union> set object_prototype_keys"
  with assms(1) have "map_of (statuses fs) (status item) = None"
    and "status item \<notin> set object_prototype_keys"
    by (simp_all add: flag_per_key_def map_of_no_key)
  then show ?thesis by (simp add: keeps_iff truthy_get_property)
qed

text \<open>
  The two failures the component handles: a rejected sign-out and a failed delete each
  end in one call, one error toast and no invalidation.
\<close>

lemma handled_failures_toast_once:
  "snd (handleSignOut (Inl e)) = Inr () \<and>
   fst (handleSignOut (Inl e)) = [SignOut, ToastError ''Failed to sign out''] \<and>
   (\<not> respond 0 \<longrightarrow>
      runDelete respond item =
        [ApiRequest ''DELETE'' (''/api/content/'' @ item),
         ToastError ''Failed to delete content item''])"
  by (simp add: handleSignOut_def runDelete_def mutate_def mutation_retries_def
      deleteMutation_def)

text \<open>The switch answers not-found exactly when no pattern of the table matches.\<close>

lemma Router_NotFound_iff:
  "Router matches location = Some NotFound \<longleftrightarrow>
     (\<forall>p \<in> set route_paths. \<not> matches p location)"
  by (simp add: Router_def routes_def route_paths_def)

text \<open>The paths of the table, and three other locations, in lower case.\<close>

lemma lower_route_paths:
  "to_lower ''/'' = ''/''"
  "to_lower ''/app'' = ''/app''"
  "to_lower ''/analytics'' = ''/analytics''"
  "to_lower ''/bulk-scheduling'' = ''/bulk-scheduling''"
  "to_lower ''/subscription'' = ''/subscription''"
  "to_lower ''/settings'' = ''/settings''"
  by (simp_all add: to_lower_def lower_char_def)

lemma lower_other_paths:
  "to_lower ''/APP'' = ''/app''"
  "to_lower ''/app/'' = ''/app/''"
  "to_lower ''/pricing'' = ''/pricing''"
  by (simp_all add: to_lower_def lower_char_def)

section \<open>The filtered list\<close>

text \<open>
  C1, at a fetched list of one item whose platform is the string \<open>toString\<close>. The filter
  state has one flag per platform and per status, and no flag for \<open>toString\<close>, so the
  flag of this item's platform is not true. The item is in the filtered list all the
  same, it stays there with all three platform flags off, and the platform badges count
  it under no platform.
\<close>

theorem inherited_platform_shown:
  "flag_per_key initial_filters \<and>
   \<not> flags_true initial_filters inherited_name_item \<and>
   filteredItems initial_filters [inherited_name_item] = [inherited_name_item] \<and>
   filteredItems
     (setPlatformFilter ''social'' False
       (setPlatformFilter ''email'' False
         (setPlatformFilter ''blog'' False initial_filters)))
     [social_draft_item, inherited_name_item] = [inherited_name_item] \<and>
   platformCounts [inherited_name_item] = \<lparr> social = 0, email = 0, blog = 0 \<rparr>"
  by (simp add: flag_per_key_def initial_filters_def platform_keys_def status_keys_def
      filteredItems_def keeps_iff get_property_def object_prototype_keys_def
      setPlatformFilter_def platformCounts_def
      inherited_name_item_def social_draft_item_def flags_true_def)

section \<open>Calendar events\<close>

text \<open>
  C2. The events list has one event per filtered item, in the same order; each event
  copies the item's identifier and title, has the Date of the item's scheduled date as
  its start, an end equal to its start, and the item itself as its resource.
\<close>

theorem events_shape:
  "length (events new_Date (filteredItems fs items)) = length (filteredItems fs items) \<and>
   map resource (events new_Date (filteredItems fs items)) = filteredItems fs items \<and>
   (\<forall>i < length (filteredItems fs items).
      event_id (events new_Date (filteredItems fs items) ! i)
        = item_id (filteredItems fs items ! i) \<and>
      event_title (events new_Date (filteredItems fs items) ! i)
        = title (filteredItems fs items ! i) \<and>
      event_start (events new_Date (filteredItems fs items) ! i)
        = new_Date (scheduledDate (filteredItems fs items ! i)) \<and>
      event_end (events new_Date (filteredItems fs items) ! i)
        = event_start (events new_Date (filteredItems fs items) ! i) \<and>
      resource (events new_Date (filteredItems fs items) ! i) = filteredItems fs items ! i)"
  by (simp add: events_def to_event_def comp_def)

text \<open>The second of two shown items, the unknown platform between them filtered out.\<close>

theorem events_shape_witness:
  "length (filteredItems initial_filters
        [social_draft_item, podcast_item, email_scheduled_item]) = 2 \<and>
   length (events (\<lambda>d. d) (filteredItems initial_filters
        [social_draft_item, podcast_item, email_scheduled_item])) = 2 \<and>
   event_id (events (\<lambda>d. d) (filteredItems initial_filters
        [social_draft_item, podcast_item, email_scheduled_item]) ! 1) = ''2'' \<and>
   event_end (events (\<lambda>d. d) (filteredItems initial_filters
        [social_draft_item, podcast_item, email_scheduled_item]) ! 1)
     = ''2025-03-04T09:00:00.000Z'' \<and>
   resource (events (\<lambda>d. d) (filteredItems initial_filters
        [social_draft_item, podcast_item, email_scheduled_item]) ! 1) = email_scheduled_item"
proof -
  have items: "filteredItems initial_filters
      [social_draft_item, podcast_item, email_scheduled_item]
      = [social_draft_item, email_scheduled_item]"
    by (simp add: filteredItems_def keeps_iff get_property_def object_prototype_keys_def
        initial_filters_def social_draft_item_def podcast_item_def email_scheduled_item_def)
  from events_shape [of "\<lambda>d. d" initial_filters
      "[social_draft_item, podcast_item, email_scheduled_item]"]
  show ?thesis
    unfolding items by (simp add: email_scheduled_item_def)
qed

section \<open>The authentication gate\<close>

text \<open>
  C3. When the authentication state is resolved (not loading) and nobody is signed in,
  the component returns the sign-in prompt and not the dashboard; whenever it returns the
  dashboard a user is present.
\<close>

theorem auth_gate:
  "(\<not> loading a \<and> user a = None \<longrightarrow>
      ContentPlannerApp a = SignInPrompt \<and> ContentPlannerApp a \<noteq> Dashboard) \<and>
   (ContentPlannerApp a = Dashboard \<longrightarrow> user a \<noteq> None)"
  by (simp add: ContentPlannerApp_def)

theorem auth_gate_witness:
  "\<not> loading \<lparr> user = (None :: string option), loading = False \<rparr> \<and>
   ContentPlannerApp \<lparr> user = (None :: string option), loading = False \<rparr> = SignInPrompt \<and>
   ContentPlannerApp \<lparr> user = Some ''ada@example.org'', loading = False \<rparr> = Dashboard"
  using auth_gate [of "\<lparr> user = (None :: string option), loading = False \<rparr>"]
  by (simp add: ContentPlannerApp_def)

section \<open>Failures and cache invalidation\<close>

text \<open>
  C4, at a failed fetch of the content list, the one data-API call the component makes
  while it renders. The component shows no toast: it renders the calendar with no events.
\<close>

theorem failed_list_query_silent:
  "toasts (fst (calendarArea (\<lambda>d. d) initial_filters
      (failed_query ''500: Internal Server Error'' :: string query_result))) = [] \<and>
   snd (calendarArea (\<lambda>d. d) initial_filters
      (failed_query ''500: Internal Server Error'' :: string query_result)) = CalendarOf []"
  by (simp add: calendarArea_def failed_query_def contentItems_def filteredItems_def
      events_def)

text \<open>
  C5. A successful delete sends the request, then invalidates the one query key
  \<open>['/api/content']\<close>, then shows the success toast, and does nothing else to the cache.
  Whatever the number of retries, a run that ends in success invalidates exactly that key.
\<close>

theorem delete_success_invalidates:
  "(respond 0 \<longrightarrow>
      runDelete respond item =
        [ApiRequest ''DELETE'' (''/api/content/'' @ item),
         InvalidateQueries [''/api/content''],
         ToastSuccess ''Content item deleted successfully'']) \<and>
   (snd (attempts n 0 respond (mutationFn deleteMutation item)) \<longrightarrow>
      invalidated (mutate n deleteMutation respond item) = [[''/api/content'']])"
proof
  show "respond 0 \<longrightarrow>
      runDelete respond item =
        [ApiRequest ''DELETE'' (''/api/content/'' @ item),
         InvalidateQueries [''/api/content''],
         ToastSuccess ''Content item deleted successfully'']"
    by (simp add: runDelete_def mutate_def mutation_retries_def deleteMutation_def)
next
  show "snd (attempts n 0 respond (mutationFn deleteMutation item)) \<longrightarrow>
      invalidated (mutate n deleteMutation respond item) = [[''/api/content'']]"
  proof
    assume ok: "snd (attempts n 0 respond (mutationFn deleteMutation item))"
    obtain es where run: "attempts n 0 respond (mutationFn deleteMutation item) = (es, True)"
      using ok by (cases "attempts n 0 respond (mutationFn deleteMutation item)") simp
    have "invalidated es = []"
      using attempts_effects [of n 0 respond "''DELETE''" "''/api/content/'' @ item"] run
      by (simp add: deleteMutation_def)
    then show "invalidated (mutate n deleteMutation respond item) = [[''/api/content'']]"
      by (simp add: mutate_def run invalidated_append) (simp add: deleteMutation_def)
  qed
qed

theorem delete_success_invalidates_witness:
  "runDelete (\<lambda>k. True) ''42'' =
     [ApiRequest ''DELETE'' ''/api/content/42'',
      InvalidateQueries [''/api/content''],
      ToastSuccess ''Content item deleted successfully''] \<and>
   invalidated (mutate 0 deleteMutation (\<lambda>k. True) ''42'') = [[''/api/content'']]"
  using delete_success_invalidates [of "\<lambda>k. True" "''42''" 0]
  by (simp add: deleteMutation_def)

section \<open>Routing\<close>

text \<open>
  C6, as stated, at two locations: \<open>/APP\<close> and \<open>/app/\<close> are not among the six paths of
  the table, and they resolve to the main app page, not to the not-found page.
\<close>

theorem c6_counterexample:
  "''/APP'' \<notin> set route_paths \<and> Router path_matches ''/APP'' = Some ContentPlanner \<and>
   ''/app/'' \<notin> set route_paths \<and> Router path_matches ''/app/'' = Some ContentPlanner"
  by (simp add: route_paths_def routes_def Router_def path_matches_def lower_route_paths
      lower_other_paths)

text \<open>
  C6 (amended). The route table names exactly the paths \<open>/\<close>, \<open>/app\<close>, \<open>/analytics\<close>,
  \<open>/bulk-scheduling\<close>, \<open>/subscription\<close> and \<open>/settings\<close>, for the landing, main app,
  analytics, bulk scheduling, subscription and settings pages, followed by the not-found
  page without a path; no route takes a parameter. The first route whose pattern matches
  the location is rendered: each of the six paths resolves to its page, and a location
  resolves to the not-found page exactly when none of the six patterns matches it,
  whatever the matcher.
\<close>

theorem route_table:
  "route_paths =
     [''/'', ''/app'', ''/analytics'', ''/bulk-scheduling'', ''/subscription'', ''/settings''] \<and>
   map snd routes =
     [Landing, ContentPlanner, Analytics, BulkScheduling, Subscription, Settings, NotFound] \<and>
   list_all (\<lambda>r. \<not> takes_parameter (fst r)) routes \<and>
   Router path_matches ''/'' = Some Landing \<and>
   Router path_matches ''/app'' = Some ContentPlanner \<and>
   Router path_matches ''/analytics'' = Some Analytics \<and>
   Router path_matches ''/bulk-scheduling'' = Some BulkScheduling \<and>
   Router path_matches ''/subscription'' = Some Subscription \<and>
   Router path_matches ''/settings'' = Some Settings \<and>
   ((\<forall>p \<in> set route_paths. \<not> matches p location) \<longrightarrow>
      Router matches location = Some NotFound) \<and>
   (Router matches location = Some NotFound \<longrightarrow>
      (\<forall>p \<in> set route_paths. \<not> matches p location))"
proof -
  have t1: "route_paths =
     [''/'', ''/app'', ''/analytics'', ''/bulk-scheduling'', ''/subscription'', ''/settings'']"
    by (simp add: route_paths_def routes_def)
  have t2: "map snd routes =
     [Landing, ContentPlanner, Analytics, BulkScheduling, Subscription, Settings, NotFound]"
    by (simp add: routes_def)
  have t3: "list_all (\<lambda>r. \<not> takes_parameter (fst r)) routes"
    by (simp add: routes_def takes_parameter_def)
  have p1: "Router path_matches ''/'' = Some Landing"
    by (simp add: Router_def routes_def path_matches_def lower_route_paths)
  have p2: "Router path_matches ''/app'' = Some ContentPlanner"
    by (simp add: Router_def routes_def path_matches_def lower_route_paths)
  have p3: "Router path_matches ''/analytics'' = Some Analytics"
    by (simp add: Router_def routes_def path_matches_def lower_route_paths)
  have p4: "Router path_matches ''/bulk-scheduling'' = Some BulkScheduling"
    by (simp add: Router_def routes_def path_matches_def lower_route_paths)
  have p5: "Router path_matches ''/subscription'' = Some Subscription"
    by (simp add: Router_def routes_def path_matches_def lower_route_paths)
  have p6: "Router path_matches ''/settings'' = Some Settings"
    by (simp add: Router_def routes_def path_matches_def lower_route_paths)
  have n1: "(\<forall>p \<in> set route_paths. \<not> matches p location) \<longrightarrow>
      Router matches location = Some NotFound"
    by (rule impI) (rule Router_NotFound_iff [THEN iffD2])
  have n2: "Router matches location = Some NotFound \<longrightarrow>
      (\<forall>p \<in> set route_paths. \<not> matches p location)"
    by (rule impI) (rule Router_NotFound_iff [THEN iffD1])
  show ?thesis
    by (intro conjI t1 t2 t3 p1 p2 p3 p4 p5 p6 n1 n2)
qed

text \<open>
  With the matcher of the library, \<open>/pricing\<close> matches no pattern and is not found; with
  plain equality of paths as the matcher, so is \<open>/APP\<close>.
\<close>

theorem route_table_witness:
  "list_all (\<lambda>p. \<not> path_matches p ''/pricing'') route_paths \<and>
   Router path_matches ''/pricing'' = Some NotFound \<and>
   list_all (\<lambda>p. p \<noteq> ''/APP'') route_paths \<and>
   Router (=) ''/APP'' = Some NotFound"
proof -
  have a: "list_all (\<lambda>p. \<not> path_matches p ''/pricing'') route_paths"
    by (simp add: route_paths_def routes_def path_matches_def lower_route_paths lower_other_paths)
  have b: "list_all (\<lambda>p. p \<noteq> ''/APP'') route_paths"
    by (simp add: route_paths_def routes_def)
  have "(\<forall>p \<in> set route_paths. \<not> path_matches p ''/pricing'') \<longrightarrow>
      Router path_matches ''/pricing'' = Some NotFound"
    by (rule route_table [of path_matches "''/pricing''", THEN conjunct2, THEN conjunct2,
          THEN conjunct2, THEN conjunct2, THEN conjunct2, THEN conjunct2, THEN conjunct2,
          THEN conjunct2, THEN conjunct2, THEN conjunct1])
  with a have c: "Router path_matches ''/pricing'' = Some NotFound"
    by (simp only: list_all_iff)
  have "(\<forall>p \<in> set route_paths. \<not> p = ''/APP'') \<longrightarrow> Router (=) ''/APP'' = Some NotFound"
    by (rule route_table [of "(=)" "''/APP''", THEN conjunct2, THEN conjunct2,
          THEN conjunct2, THEN conjunct2, THEN conjunct2, THEN conjunct2, THEN conjunct2,
          THEN conjunct2, THEN conjunct2, THEN conjunct1])
  with b have d: "Router (=) ''/APP'' = Some NotFound"
    by (simp only: list_all_iff)
  show ?thesis
    by (intro conjI a c b d)
qed

section \<open>Membership of platform and status\<close>

text \<open>
  C7, as stated, at a concrete state: after the suggestion handler has run on a
  suggestion for the platform \<open>tiktok\<close>, the item being edited has a platform outside
  \<open>{social, email, blog}\<close>.
\<close>

theorem c7_counterexample:
  "reachable (handleSuggestionUse ''t1'' ''t2'' ''t3'' tiktok_suggestion (initial_state ''t0'')) \<and>
   map_option platform
     (editingItem (handleSuggestionUse ''t1'' ''t2'' ''t3'' tiktok_suggestion
        (initial_state ''t0'')))
     = Some ''tiktok'' \<and>
   ''tiktok'' \<notin> set platform_keys"
proof -
  have "reachable
      (handleSuggestionUse ''t1'' ''t2'' ''t3'' tiktok_suggestion (initial_state ''t0''))"
    by (rule reachable.next_state [OF reachable.start step.suggestion_use])
  then show ?thesis
    by (simp add: handleSuggestionUse_def tiktok_suggestion_def platform_keys_def)
qed

text \<open>
  C7 (amended). The item the client builds from a suggestion always has the status
  \<open>draft\<close>, a member of \<open>{draft, scheduled, posted}\<close>, and takes the suggestion's platform
  as it comes. Under a filter state with one flag per platform and per status, and
  leaving aside platforms and statuses that are property names inherited from
  \<^verbatim>\<open>Object.prototype\<close>, every item shown on the calendar has its platform in
  \<open>{social, email, blog}\<close> and its status in \<open>{draft, scheduled, posted}\<close>. No other
  invariant is enforced: whether the filter keeps an item depends on its platform and
  its status alone.
\<close>

theorem membership_checks:
  "(\<exists>item. editingItem (handleSuggestionUse t1 t2 t3 sg s) = Some item \<and>
       status item = ''draft'' \<and> status item \<in> set status_keys \<and>
       platform item = suggestion_platform sg) \<and>
   (flag_per_key fs \<longrightarrow>
      (\<forall>item \<in> set (filteredItems fs items).
          (platform item \<notin> set object_prototype_keys \<longrightarrow> platform item \<in> set platform_keys) \<and>
          (status item \<notin> set object_prototype_keys \<longrightarrow> status item \<in> set status_keys))) \<and>
   (platform a = platform b \<and> status a = status b \<longrightarrow>
      (filteredItems fs [a] = [a]) = (filteredItems fs [b] = [b]))"
proof (intro conjI)
  show "\<exists>item. editingItem (handleSuggestionUse t1 t2 t3 sg s) = Some item \<and>
       status item = ''draft'' \<and> status item \<in> set status_keys \<and>
       platform item = suggestion_platform sg"
    by (simp add: handleSuggestionUse_def status_keys_def)
next
  show "flag_per_key fs \<longrightarrow>
      (\<forall>item \<in> set (filteredItems fs items).
          (platform item \<notin> set object_prototype_keys \<longrightarrow> platform item \<in> set platform_keys) \<and>
          (status item \<notin> set object_prototype_keys \<longrightarrow> status item \<in> set status_keys))"
  proof (intro impI ballI)
    fix item
    assume fs: "flag_per_key fs" and shown: "item \<in> set (filteredItems fs items)"
    then have k: "keeps fs item" by (simp add: filteredItems_def)
    show "(platform item \<notin> set object_prototype_keys \<longrightarrow> platform item \<in> set platform_keys) \<and>
          (status item \<notin> set object_prototype_keys \<longrightarrow> status item \<in> set status_keys)"
      using unknown_key_excluded [OF fs, of item] k by blast
  qed
next
  show "platform a = platform b \<and> status a = status b \<longrightarrow>
      (filteredItems fs [a] = [a]) = (filteredItems fs [b] = [b])"
    by (simp add: filteredItems_def keeps_def)
qed

text \<open>
  The podcast item is dropped and the social draft shown; the suggestion for \<open>tiktok\<close>
  becomes a draft; two items that differ in everything but platform and status fare alike.
\<close>

theorem membership_checks_witness:
  "flag_per_key initial_filters \<and>
   filteredItems initial_filters [podcast_item, social_draft_item] = [social_draft_item] \<and>
   platform social_draft_item \<in> set platform_keys \<and>
   status social_draft_item \<in> set status_keys \<and>
   map_option status (editingItem (handleSuggestionUse ''t1'' ''t2'' ''t3'' tiktok_suggestion
       (initial_state ''t0''))) = Some ''draft'' \<and>
   platform social_draft_item = platform (social_draft_item\<lparr> item_id := ''9'', title := [] \<rparr>) \<and>
   filteredItems initial_filters [social_draft_item\<lparr> item_id := ''9'', title := [] \<rparr>]
     = [social_draft_item\<lparr> item_id := ''9'', title := [] \<rparr>]"
  using membership_checks [of "''t1''" "''t2''" "''t3''" tiktok_suggestion
      "initial_state ''t0''" initial_filters "[podcast_item, social_draft_item]"
      social_draft_item "social_draft_item\<lparr> item_id := ''9'', title := [] \<rparr>"]
  by (simp add: flag_per_key_def initial_filters_def platform_keys_def status_keys_def
      filteredItems_def keeps_iff get_property_def object_prototype_keys_def
      podcast_item_def social_draft_item_def handleSuggestionUse_def)

section \<open>Names the filter objects do not define\<close>

text \<open>
  C8, at a fetched list with two platforms outside \<open>{social, email, blog}\<close>. The item with
  the platform \<open>podcast\<close> is excluded, as the claim says. The item with the platform
  \<open>constructor\<close> is kept, also with every platform flag off, and the platform badges
  count neither item.
\<close>

theorem constructor_platform_shown:
  "platform podcast_item \<notin> set platform_keys \<and>
   platform constructor_item \<notin> set platform_keys \<and>
   flag_per_key initial_filters \<and>
   filteredItems initial_filters [podcast_item, constructor_item] = [constructor_item] \<and>
   filteredItems
     (setPlatformFilter ''blog'' False
       (setPlatformFilter ''email'' False
         (setPlatformFilter ''social'' False initial_filters)))
     [podcast_item, constructor_item] = [constructor_item] \<and>
   platformCounts [podcast_item, constructor_item] = \<lparr> social = 0, email = 0, blog = 0 \<rparr>"
  by (simp add: filteredItems_def keeps_iff get_property_def object_prototype_keys_def
      initial_filters_def platform_keys_def status_keys_def flag_per_key_def
      setPlatformFilter_def platformCounts_def podcast_item_def constructor_item_def)

section \<open>All flags on\<close>

text \<open>
  C9. The initial filter state has every flag true, and under any filter state with
  every flag true the filtered list equals the fetched list, for every list whose items
  have their platform in \<open>{social, email, blog}\<close> and their status in
  \<open>{draft, scheduled, posted}\<close>.
\<close>

theorem all_flags_identity:
  "all_flags_true initial_filters \<and>
   (all_flags_true fs \<and>
    (\<forall>item \<in> set items. platform item \<in> set platform_keys \<and> status item \<in> set status_keys)
      \<longrightarrow> filteredItems fs items = items)"
proof
  show "all_flags_true initial_filters"
    by (simp add: all_flags_true_def initial_filters_def platform_keys_def status_keys_def)
next
  show "all_flags_true fs \<and>
    (\<forall>item \<in> set items. platform item \<in> set platform_keys \<and> status item \<in> set status_keys)
      \<longrightarrow> filteredItems fs items = items"
  proof
    assume h: "all_flags_true fs \<and>
      (\<forall>item \<in> set items. platform item \<in> set platform_keys \<and> status item \<in> set status_keys)"
    have "keeps fs item" if "item \<in> set items" for item
    proof -
      from h that have "map_of (platforms fs) (platform item) = Some True"
        and "map_of (statuses fs) (status item) = Some True"
        by (auto simp: all_flags_true_def list_all_iff)
      then show ?thesis by (simp add: keeps_iff truthy_get_property)
    qed
    then show "filteredItems fs items = items"
      by (simp add: filteredItems_def)
  qed
qed

theorem all_flags_identity_witness:
  "all_flags_true initial_filters \<and>
   list_all (\<lambda>item. platform item \<in> set platform_keys \<and> status item \<in> set status_keys)
     [email_scheduled_item, social_draft_item] \<and>
   filteredItems initial_filters [email_scheduled_item, social_draft_item]
     = [email_scheduled_item, social_draft_item]"
  using all_flags_identity [of initial_filters "[email_scheduled_item, social_draft_item]"]
  by (simp add: platform_keys_def status_keys_def email_scheduled_item_def
      social_draft_item_def)

section \<open>The calendar view\<close>

text \<open>
  C10. The view starts as \<open>month\<close>; \<open>onView\<close> leaves the state as it is when handed a
  name other than \<open>month\<close>, \<open>week\<close> or \<open>day\<close>; and in every state the handlers can reach
  the view is one of these three.
\<close>

theorem view_invariant:
  "view (initial_state now) = ''month'' \<and>
   (v \<notin> set view_options \<longrightarrow> onView v s = s) \<and>
   (reachable s \<longrightarrow> view s \<in> set view_options)"
proof (intro conjI impI)
  show "view (initial_state now) = ''month''" by (simp add: initial_state_def)
next
  assume "v \<notin> set view_options"
  then show "onView v s = s" by (simp add: onView_def view_options_def)
next
  assume "reachable s"
  then show "view s \<in> set view_options"
  proof (induction rule: reachable.induct)
    case (start now)
    show ?case by (simp add: initial_state_def view_options_def)
  next
    case (next_state s s')
    then show ?case by (simp add: step_view)
  qed
qed

text \<open>Click on the week button, then the calendar reports its agenda view.\<close>

theorem view_invariant_witness:
  "''agenda'' \<notin> set view_options \<and>
   reachable (onView ''agenda'' ((initial_state ''t0'')\<lparr> view := ''week'' \<rparr>)) \<and>
   view (onView ''agenda'' ((initial_state ''t0'')\<lparr> view := ''week'' \<rparr>)) = ''week''"
proof -
  have "step (initial_state ''t0'') ((initial_state ''t0'')\<lparr> view := ''week'' \<rparr>)"
    by (rule step.view_button) (simp add: view_options_def)
  then have "reachable ((initial_state ''t0'')\<lparr> view := ''week'' \<rparr>)"
    by (rule reachable.next_state [OF reachable.start])
  then have r: "reachable (onView ''agenda'' ((initial_state ''t0'')\<lparr> view := ''week'' \<rparr>))"
    by (rule reachable.next_state) (rule step.calendar_view)
  from view_invariant [of "''t0''" "''agenda''"
      "onView ''agenda'' ((initial_state ''t0'')\<lparr> view := ''week'' \<rparr>)"] r
  show ?thesis by (simp add: view_options_def onView_def)
qed

end
